theory Spec2Isabelle
  imports Main "HOL-Library.Word"
begin

unbundle bit_operations_syntax

section \<open>pglogical\_ticker: the background worker and its launcher\<close>

text \<open>
  A shallow embedding of \<^verbatim>\<open>src/pglogical_ticker.c\<close>. The file has three entry points:
  \<^item> \<^verbatim>\<open>pglogical_ticker_main\<close>, the body of the background worker (signal flags, the
    latch wait, one transaction per cycle);
  \<^item> \<^verbatim>\<open>_PG_init\<close>, which defines the three configuration variables and registers the
    static worker;
  \<^item> \<^verbatim>\<open>pglogical_ticker_launch\<close>, the SQL-callable function that registers a dynamic
    worker and waits for its start.

  Everything the C code does is a call into the PostgreSQL host. The model records the
  calls in the order the code makes them (a trace) and takes from an explicit
  environment what the host answers: which signals arrive and when, what
  \<^verbatim>\<open>WaitLatch\<close> returns, which host call raises an \<^verbatim>\<open>ERROR\<close>. The code has
  no \<^verbatim>\<open>PG_TRY\<close> block, so a raised error leaves the function at the call that raised it.
  Where the source has \<^verbatim>\<open>#if PG_VERSION_NUM\<close> branches the model follows the newer
  branch; the older one differs only in an argument that is dropped or a field that is
  not set.
\<close>

subsection \<open>Host types and constants\<close>

type_synonym Oid = "32 word"
type_synonym Datum = "64 word"

text \<open>
  The host's conversion macros of \<^verbatim>\<open>postgres.h\<close>, on a 64-bit \<^verbatim>\<open>Datum\<close>: an
  \<^verbatim>\<open>Oid\<close> is zero-extended, a \<^verbatim>\<open>Datum\<close> is cut to its low 32 bits. The code applies
  \<^verbatim>\<open>Int32GetDatum\<close> to the constant 0 only.
\<close>

definition InvalidOid :: Oid where
  "InvalidOid = 0"

definition ObjectIdGetDatum :: "Oid \<Rightarrow> Datum" where
  "ObjectIdGetDatum x = ucast x"

definition DatumGetObjectId :: "Datum \<Rightarrow> Oid" where
  "DatumGetObjectId d = ucast d"

definition Int32GetDatum :: "32 word \<Rightarrow> Datum" where
  "Int32GetDatum x = ucast x"

definition INT_MAX :: int where
  "INT_MAX = 2147483647"

text \<open>The wake-event bits of \<^verbatim>\<open>storage/latch.h\<close>.\<close>

definition WL_LATCH_SET :: "32 word" where
  "WL_LATCH_SET = push_bit 0 1"

definition WL_TIMEOUT :: "32 word" where
  "WL_TIMEOUT = push_bit 3 1"

definition WL_POSTMASTER_DEATH :: "32 word" where
  "WL_POSTMASTER_DEATH = push_bit 4 1"

text \<open>The worker flags of \<^verbatim>\<open>postmaster/bgworker.h\<close>.\<close>

definition BGWORKER_SHMEM_ACCESS :: "32 word" where
  "BGWORKER_SHMEM_ACCESS = 1"

definition BGWORKER_BACKEND_DATABASE_CONNECTION :: "32 word" where
  "BGWORKER_BACKEND_DATABASE_CONNECTION = 2"

datatype BgWorkerStartTime =
    BgWorkerStart_PostmasterStart
  | BgWorkerStart_ConsistentState
  | BgWorkerStart_RecoveryFinished

datatype BgwHandleStatus =
    BGWH_STARTED
  | BGWH_NOT_YET_STARTED
  | BGWH_STOPPED
  | BGWH_POSTMASTER_DIED

record BackgroundWorker =
  bgw_name :: string
  bgw_type :: string
  bgw_flags :: "32 word"
  bgw_start_time :: BgWorkerStartTime
  bgw_restart_time :: int
  bgw_library_name :: string
  bgw_function_name :: string
  bgw_main_arg :: Datum
  bgw_notify_pid :: int

text \<open>
  \<^verbatim>\<open>memset(&worker, 0, sizeof(worker))\<close>: every field zero, every string empty, the
  enumeration at its first value.
\<close>

definition zero_worker :: BackgroundWorker where
  "zero_worker =
     \<lparr>bgw_name = [], bgw_type = [], bgw_flags = 0,
      bgw_start_time = BgWorkerStart_PostmasterStart, bgw_restart_time = 0,
      bgw_library_name = [], bgw_function_name = [], bgw_main_arg = 0,
      bgw_notify_pid = 0\<rparr>"

subsection \<open>The configuration variables\<close>

text \<open>
  The three GUC variables of the file with their static initialisers
  (\<^verbatim>\<open>naptime = 10\<close>, \<^verbatim>\<open>database = NULL\<close>, \<^verbatim>\<open>restart_time = 10\<close>) and the constant
  \<^verbatim>\<open>pglogical_ticker_total_workers = 1\<close>.
\<close>

record gucs =
  pglogical_ticker_naptime :: int
  pglogical_ticker_database :: "string option"
  pglogical_ticker_restart_time :: int

definition initial_gucs :: gucs where
  "initial_gucs =
     \<lparr>pglogical_ticker_naptime = 10, pglogical_ticker_database = None,
      pglogical_ticker_restart_time = 10\<rparr>"

definition pglogical_ticker_total_workers :: nat where
  "pglogical_ticker_total_workers = 1"

subsection \<open>Signal handlers\<close>

datatype signal = SIGHUP | SIGTERM

record worker_state =
  got_sighup :: bool
  got_sigterm :: bool
  latch_is_set :: bool
  guc :: gucs

text \<open>\<^verbatim>\<open>got_sigterm = true; SetLatch(MyLatch);\<close>\<close>

definition pglogical_ticker_sigterm :: "worker_state \<Rightarrow> worker_state" where
  "pglogical_ticker_sigterm s = s\<lparr>got_sigterm := True, latch_is_set := True\<rparr>"

text \<open>\<^verbatim>\<open>got_sighup = true; SetLatch(MyLatch);\<close>\<close>

definition pglogical_ticker_sighup :: "worker_state \<Rightarrow> worker_state" where
  "pglogical_ticker_sighup s = s\<lparr>got_sighup := True, latch_is_set := True\<rparr>"

text \<open>The handlers installed by \<^verbatim>\<open>pqsignal\<close>, run for each signal that is delivered.\<close>

fun handle_signal :: "signal \<Rightarrow> worker_state \<Rightarrow> worker_state" where
  "handle_signal SIGHUP s = pglogical_ticker_sighup s"
| "handle_signal SIGTERM s = pglogical_ticker_sigterm s"

fun deliver :: "signal list \<Rightarrow> worker_state \<Rightarrow> worker_state" where
  "deliver [] s = s"
| "deliver (sg # sgs) s = deliver sgs (handle_signal sg s)"

subsection \<open>The worker: \<^verbatim>\<open>pglogical_ticker_main\<close>\<close>

datatype BackendState = STATE_IDLE | STATE_RUNNING

text \<open>
  The host calls of the worker, as they appear in the trace of a run. Arguments that
  are the same constant at every call are left out: the context and source of
  \<^verbatim>\<open>SetConfigOption\<close> (\<^verbatim>\<open>PGC_USERSET\<close>, \<^verbatim>\<open>PGC_S_SESSION\<close>), the wait-event class of
  \<^verbatim>\<open>WaitLatch\<close>, the read-only flag and row limit of \<^verbatim>\<open>SPI_execute\<close>
  (\<^verbatim>\<open>false\<close>, 0), the snapshot pushed, the argument \<^verbatim>\<open>false\<close> of
  \<^verbatim>\<open>pgstat_report_stat\<close>.
\<close>

datatype host_call =
    Pqsignal signal
  | BackgroundWorkerUnblockSignals
  | BackgroundWorkerInitializeConnection string
  | BackgroundWorkerInitializeConnectionByOid Oid Oid
  | SetConfigOption string string
  | Elog_LOG string
  | WaitLatch "32 word" int
  | ResetLatch
  | CHECK_FOR_INTERRUPTS
  | ProcessConfigFile
  | SetCurrentStatementStartTimestamp
  | StartTransactionCommand
  | SPI_connect
  | PushActiveSnapshot
  | Pgstat_report_activity BackendState "string option"
  | SPI_execute string
  | SPI_finish
  | PopActiveSnapshot
  | CommitTransactionCommand
  | Pgstat_report_stat
  | Proc_exit int

text \<open>
  How a run of the worker ends: the code called \<^verbatim>\<open>proc_exit\<close> with a status; or a host
  call raised an \<^verbatim>\<open>ERROR\<close>, which the code does not catch; or the script of
  environment events ended while the worker was blocked in \<^verbatim>\<open>WaitLatch\<close>.
\<close>

datatype outcome = Exited int | Raised host_call | Blocked_in_wait

text \<open>
  What the environment does during one pass through the loop body. The value of
  \<open>wait_rc\<close> is not tied to the signals: the statements below hold for every value the
  host may return.
  \<^item> \<open>sigs_in_wait\<close>: the signals delivered after the loop test and before
    \<^verbatim>\<open>WaitLatch\<close> returns;
  \<^item> \<open>wait_rc\<close>: the value \<^verbatim>\<open>WaitLatch\<close> returns;
  \<^item> \<open>raises\<close>: the host calls that raise an \<^verbatim>\<open>ERROR\<close> in this pass;
  \<^item> \<open>reloaded\<close>: the values \<^verbatim>\<open>ProcessConfigFile\<close> leaves in the variables;
  \<^item> \<open>sigs_in_tick\<close>: the signals delivered after the test of \<^verbatim>\<open>got_sighup\<close> and
    before the next loop test.
\<close>

record cycle_env =
  sigs_in_wait :: "signal list"
  wait_rc :: "32 word"
  raises :: "host_call \<Rightarrow> bool"
  reloaded :: gucs
  sigs_in_tick :: "signal list"

definition tick_query :: string where
  "tick_query = ''SELECT pglogical_ticker.tick();''"

text \<open>Lines 181 to 197: the transaction around the one statement, call by call.\<close>

definition tick_calls :: "host_call list" where
  "tick_calls =
     [SetCurrentStatementStartTimestamp, StartTransactionCommand, SPI_connect,
      PushActiveSnapshot, Pgstat_report_activity STATE_RUNNING (Some tick_query),
      SPI_execute tick_query,
      SPI_finish, PopActiveSnapshot, CommitTransactionCommand, Pgstat_report_stat,
      Pgstat_report_activity STATE_IDLE None]"

text \<open>
  A straight-line sequence of host calls: the calls made, and the call that raised, if
  one did. Nothing after a raising call is run.
\<close>

fun run_calls :: "(host_call \<Rightarrow> bool) \<Rightarrow> host_call list \<Rightarrow> host_call list \<times> host_call option" where
  "run_calls r [] = ([], None)"
| "run_calls r (c # cs) =
     (if r c then ([c], Some c)
      else (case run_calls r cs of (tr, res) \<Rightarrow> (c # tr, res)))"

text \<open>
  The wait of lines 139 to 142: the events waited for and the timeout in milliseconds.
  The product \<^verbatim>\<open>pglogical_ticker_naptime * 1000L\<close> is computed in \<^verbatim>\<open>long\<close>; with a
  64-bit \<^verbatim>\<open>long\<close> it does not wrap for any \<^verbatim>\<open>int\<close>.
\<close>

definition wait_call :: "worker_state \<Rightarrow> host_call" where
  "wait_call s =
     WaitLatch (WL_LATCH_SET OR WL_TIMEOUT OR WL_POSTMASTER_DEATH)
       (pglogical_ticker_naptime (guc s) * 1000)"

text \<open>
  One pass through the body of the \<^verbatim>\<open>while\<close> loop (lines 130 to 197), entered with
  \<^verbatim>\<open>got_sigterm\<close> false. The result is the trace of the pass and either the way the
  run ended in it (\<open>Inl\<close>) or the state at the next loop test (\<open>Inr\<close>).
\<close>

definition loop_body :: "worker_state \<Rightarrow> cycle_env \<Rightarrow> host_call list \<times> (outcome + worker_state)" where
  "loop_body s e =
     (let s1 = deliver (sigs_in_wait e) s;
          s2 = s1\<lparr>latch_is_set := False\<rparr>;
          head = [wait_call s, ResetLatch]
      in if wait_rc e AND WL_POSTMASTER_DEATH \<noteq> 0
         then (head @ [Proc_exit 1], Inl (Exited 1))
         else if raises e CHECK_FOR_INTERRUPTS
         then (head @ [CHECK_FOR_INTERRUPTS], Inl (Raised CHECK_FOR_INTERRUPTS))
         else if got_sighup s2 \<and> raises e ProcessConfigFile
         then (head @ [CHECK_FOR_INTERRUPTS, ProcessConfigFile], Inl (Raised ProcessConfigFile))
         else
           (let s3 = (if got_sighup s2 then s2\<lparr>got_sighup := False, guc := reloaded e\<rparr> else s2);
                reload = (if got_sighup s2 then [ProcessConfigFile] else [])
            in case run_calls (raises e) tick_calls of
                 (tr, Some c) \<Rightarrow> (head @ [CHECK_FOR_INTERRUPTS] @ reload @ tr, Inl (Raised c))
               | (tr, None) \<Rightarrow>
                   (head @ [CHECK_FOR_INTERRUPTS] @ reload @ tr,
                    Inr (deliver (sigs_in_tick e) s3))))"

text \<open>
  The loop of lines 128 to 200: \<^verbatim>\<open>while (!got_sigterm) { ... } proc_exit(1);\<close>. The list
  is the script of the environment, one entry per pass. When the script is used up the
  worker has entered \<^verbatim>\<open>WaitLatch\<close> and nothing more happens.
\<close>

fun main_loop :: "worker_state \<Rightarrow> cycle_env list \<Rightarrow> host_call list \<times> outcome" where
  "main_loop s [] =
     (if got_sigterm s then ([Proc_exit 1], Exited 1)
      else ([wait_call s], Blocked_in_wait))"
| "main_loop s (e # es) =
     (if got_sigterm s then ([Proc_exit 1], Exited 1)
      else (case loop_body s e of
              (tr, Inl out) \<Rightarrow> (tr, out)
            | (tr, Inr s') \<Rightarrow> (case main_loop s' es of (tr', out) \<Rightarrow> (tr @ tr', out))))"

text \<open>
  Lines 85 to 123. \<open>g\<close> holds the configuration variables at the start of the process,
  \<open>main_arg\<close> is the worker's \<^verbatim>\<open>bgw_main_arg\<close>, \<open>name\<close> is
  \<^verbatim>\<open>MyBgworkerEntry->bgw_name\<close>, \<open>early\<close> are the signals delivered between the
  unblocking of signals and the first loop test.
\<close>

definition connect_call :: "gucs \<Rightarrow> Oid \<Rightarrow> host_call" where
  "connect_call g db_oid_main =
     (case pglogical_ticker_database g of
        Some d \<Rightarrow> BackgroundWorkerInitializeConnection d
      | None \<Rightarrow> BackgroundWorkerInitializeConnectionByOid db_oid_main InvalidOid)"

definition startup_calls :: "gucs \<Rightarrow> Datum \<Rightarrow> string \<Rightarrow> host_call list" where
  "startup_calls g main_arg name =
     (let db_oid_main = DatumGetObjectId main_arg
      in [Pqsignal SIGHUP, Pqsignal SIGTERM, BackgroundWorkerUnblockSignals,
          connect_call g db_oid_main,
          SetConfigOption ''application_name'' name,
          Elog_LOG (name @ '' initialized'')])"

definition initial_state :: "gucs \<Rightarrow> worker_state" where
  "initial_state g = \<lparr>got_sighup = False, got_sigterm = False, latch_is_set = False, guc = g\<rparr>"

definition pglogical_ticker_main ::
  "gucs \<Rightarrow> Datum \<Rightarrow> string \<Rightarrow> signal list \<Rightarrow> cycle_env list \<Rightarrow> host_call list \<times> outcome" where
  "pglogical_ticker_main g main_arg name early env =
     (case main_loop (deliver early (initial_state g)) env of
        (tr, out) \<Rightarrow> (startup_calls g main_arg name @ tr, out))"

subsection \<open>Module load: \<^verbatim>\<open>_PG_init\<close>\<close>

datatype GucContext =
    PGC_INTERNAL | PGC_POSTMASTER | PGC_SIGHUP | PGC_SU_BACKEND | PGC_BACKEND
  | PGC_SUSET | PGC_USERSET

text \<open>
  The arguments of \<^verbatim>\<open>DefineCustomIntVariable\<close> that the code sets: name, description,
  boot value, minimum, maximum, context (the flags are 0 and the hooks are \<^verbatim>\<open>NULL\<close>).
\<close>

record int_variable =
  int_name :: string
  int_desc :: string
  bootValue :: int
  minValue :: int
  maxValue :: int
  int_context :: GucContext

record string_variable =
  string_name :: string
  string_desc :: string
  string_bootValue :: "string option"
  string_context :: GucContext

datatype init_call =
    DefineCustomIntVariable int_variable
  | DefineCustomStringVariable string_variable
  | RegisterBackgroundWorker BackgroundWorker

text \<open>
  The host checks an integer setting against the range given at its definition; a value
  outside it is refused and the variable keeps its value.
\<close>

definition guc_accepts :: "int_variable \<Rightarrow> int \<Rightarrow> bool" where
  "guc_accepts v x = (minValue v \<le> x \<and> x \<le> maxValue v)"

text \<open>
  \<^verbatim>\<open>_PG_init\<close> runs once, when the library is loaded, so the boot values it passes are
  the static initialisers of the variables.
\<close>

definition naptime_variable :: int_variable where
  "naptime_variable =
     \<lparr>int_name = ''pglogical_ticker.naptime'',
      int_desc = ''Duration between each tick (in seconds).'',
      bootValue = pglogical_ticker_naptime initial_gucs,
      minValue = 1, maxValue = INT_MAX, int_context = PGC_SIGHUP\<rparr>"

definition database_variable :: string_variable where
  "database_variable =
     \<lparr>string_name = ''pglogical_ticker.database'',
      string_desc = ''Database to connect to.'',
      string_bootValue = pglogical_ticker_database initial_gucs,
      string_context = PGC_SIGHUP\<rparr>"

definition restart_time_variable :: int_variable where
  "restart_time_variable =
     \<lparr>int_name = ''pglogical_ticker.restart_time'',
      int_desc = ''Seconds after which to restart ticker if it dies. -1 to disable'',
      bootValue = pglogical_ticker_restart_time initial_gucs,
      minValue = - 1, maxValue = INT_MAX, int_context = PGC_SIGHUP\<rparr>"

text \<open>\<^verbatim>\<open>%d\<close> of an unsigned loop counter.\<close>

fun string_of_nat :: "nat \<Rightarrow> string" where
  "string_of_nat n =
     (if n < 10 then [char_of (48 + n)]
      else string_of_nat (n div 10) @ [char_of (48 + n mod 10)])"

text \<open>\<^verbatim>\<open>snprintf(dst, BGW_MAXLEN, ...)\<close> keeps at most \<^verbatim>\<open>BGW_MAXLEN - 1\<close> characters.\<close>

definition BGW_MAXLEN :: nat where
  "BGW_MAXLEN = 96"

definition snprintf_bgw :: "string \<Rightarrow> string" where
  "snprintf_bgw str = take (BGW_MAXLEN - 1) str"

text \<open>Lines 262 to 269: the data common to all static workers.\<close>

definition common_worker :: "gucs \<Rightarrow> BackgroundWorker" where
  "common_worker g =
     zero_worker
       \<lparr>bgw_flags := BGWORKER_SHMEM_ACCESS OR BGWORKER_BACKEND_DATABASE_CONNECTION,
        bgw_start_time := BgWorkerStart_RecoveryFinished,
        bgw_restart_time := pglogical_ticker_restart_time g,
        bgw_library_name := ''pglogical_ticker'',
        bgw_function_name := ''pglogical_ticker_main'',
        bgw_notify_pid := 0\<rparr>"

text \<open>Lines 276 to 281: the data of the \<open>i\<close>-th static worker.\<close>

definition static_worker :: "gucs \<Rightarrow> nat \<Rightarrow> BackgroundWorker" where
  "static_worker g i =
     (common_worker g)
       \<lparr>bgw_name := snprintf_bgw (''pglogical_ticker worker '' @ string_of_nat i),
        bgw_type := snprintf_bgw ''pglogical_ticker'',
        bgw_main_arg := Int32GetDatum 0\<rparr>"

text \<open>
  \<open>preload\<close> is \<^verbatim>\<open>process_shared_preload_libraries_in_progress\<close>; \<open>g\<close> holds the
  values of the variables once the host has processed the three definitions (a setting
  of the configuration file is assigned at the definition). The loop of line 274 runs
  \<open>i\<close> from 1 to \<^verbatim>\<open>pglogical_ticker_total_workers\<close>.
\<close>

definition PG_init :: "bool \<Rightarrow> gucs \<Rightarrow> init_call list" where
  "PG_init preload g =
     [DefineCustomIntVariable naptime_variable,
      DefineCustomStringVariable database_variable,
      DefineCustomIntVariable restart_time_variable] @
     (if \<not> preload then []
      else if pglogical_ticker_database g \<noteq> None
      then map (\<lambda>i. RegisterBackgroundWorker (static_worker g i))
             [1 ..< Suc pglogical_ticker_total_workers]
      else [])"

text \<open>The workers a run of \<^verbatim>\<open>_PG_init\<close> registers, in order.\<close>

fun registered :: "init_call list \<Rightarrow> BackgroundWorker list" where
  "registered [] = []"
| "registered (RegisterBackgroundWorker w # cs) = w # registered cs"
| "registered (c # cs) = registered cs"

subsection \<open>Dynamic launch: \<^verbatim>\<open>pglogical_ticker_launch\<close>\<close>

text \<open>
  An error report: the SQLSTATE of \<^verbatim>\<open>errcode\<close>, the message and the hint. In a SQLSTATE
  the first two characters are the class.
\<close>

record pg_error =
  sqlerrcode :: string
  errmsg :: string
  errhint :: string

definition ERRCODE_INSUFFICIENT_RESOURCES :: string where
  "ERRCODE_INSUFFICIENT_RESOURCES = ''53000''"

definition sqlstate_class :: "pg_error \<Rightarrow> string" where
  "sqlstate_class err = take 2 (sqlerrcode err)"

datatype launch_failure = Ereport_ERROR pg_error | Assert_failed

datatype launch_call =
    RegisterDynamicBackgroundWorker BackgroundWorker
  | WaitForBackgroundWorkerStartup

text \<open>
  What the host answers during one call: the caller's process id, whether the
  registration succeeds, the status the wait reports and the process id it stores
  (read only when the status is \<^verbatim>\<open>BGWH_STARTED\<close>).
\<close>

record launch_env =
  MyProcPid :: int
  register_ok :: bool
  startup_status :: BgwHandleStatus
  startup_pid :: int

text \<open>Lines 300 to 313.\<close>

definition dynamic_worker :: "gucs \<Rightarrow> int \<Rightarrow> Oid \<Rightarrow> BackgroundWorker" where
  "dynamic_worker g my_pid db_oid =
     zero_worker
       \<lparr>bgw_name := snprintf_bgw ''pglogical_ticker worker'',
        bgw_type := snprintf_bgw ''pglogical_ticker'',
        bgw_flags := BGWORKER_SHMEM_ACCESS OR BGWORKER_BACKEND_DATABASE_CONNECTION,
        bgw_start_time := BgWorkerStart_RecoveryFinished,
        bgw_restart_time := pglogical_ticker_restart_time g,
        bgw_library_name := ''pglogical_ticker'',
        bgw_function_name := ''pglogical_ticker_main'',
        bgw_main_arg := ObjectIdGetDatum db_oid,
        bgw_notify_pid := my_pid\<rparr>"

definition stopped_error :: pg_error where
  "stopped_error =
     \<lparr>sqlerrcode = ERRCODE_INSUFFICIENT_RESOURCES,
      errmsg = ''could not start background process'',
      errhint = ''More details may be available in the server log.''\<rparr>"

definition postmaster_died_error :: pg_error where
  "postmaster_died_error =
     \<lparr>sqlerrcode = ERRCODE_INSUFFICIENT_RESOURCES,
      errmsg = ''cannot start background processes without postmaster'',
      errhint = ''Kill all remaining database processes and restart the database.''\<rparr>"

text \<open>
  Lines 315 to 332. The result is the trace of host calls and what the SQL caller gets:
  an error (\<open>Inl\<close>), SQL \<^verbatim>\<open>NULL\<close> (\<open>Inr None\<close>) or an \<^verbatim>\<open>int4\<close> (\<open>Inr (Some pid)\<close>).
\<close>

definition pglogical_ticker_launch ::
  "gucs \<Rightarrow> launch_env \<Rightarrow> Oid \<Rightarrow> launch_call list \<times> (launch_failure + int option)" where
  "pglogical_ticker_launch g env db_oid =
     (let worker = dynamic_worker g (MyProcPid env) db_oid
      in if \<not> register_ok env
         then ([RegisterDynamicBackgroundWorker worker], Inr None)
         else
           (let calls = [RegisterDynamicBackgroundWorker worker, WaitForBackgroundWorkerStartup];
                status = startup_status env
            in if status = BGWH_STOPPED then (calls, Inl (Ereport_ERROR stopped_error))
               else if status = BGWH_POSTMASTER_DIED
               then (calls, Inl (Ereport_ERROR postmaster_died_error))
               else if status \<noteq> BGWH_STARTED then (calls, Inl Assert_failed)
               else (calls, Inr (Some (startup_pid env)))))"

subsection \<open>Auxiliary notions for the statements\<close>

text \<open>No host call of a pass raises: the pass runs to the next loop test.\<close>

definition quiet :: "cycle_env \<Rightarrow> bool" where
  "quiet e =
     (\<not> raises e CHECK_FOR_INTERRUPTS \<and> \<not> raises e ProcessConfigFile \<and>
      list_all (\<lambda>c. \<not> raises e c) tick_calls)"

text \<open>The test of line 151 fails: the wait did not report the death of the postmaster.\<close>

definition no_postmaster_death :: "cycle_env \<Rightarrow> bool" where
  "no_postmaster_death e = (wait_rc e AND WL_POSTMASTER_DEATH = 0)"

text \<open>The calls of a trace that establish the database connection.\<close>

fun is_connect :: "host_call \<Rightarrow> bool" where
  "is_connect (BackgroundWorkerInitializeConnection d) = True"
| "is_connect (BackgroundWorkerInitializeConnectionByOid db usr) = True"
| "is_connect c = False"

definition connection_calls :: "host_call list \<Rightarrow> host_call list" where
  "connection_calls tr = filter is_connect tr"

text \<open>The SQLSTATE class of the error a call of the launcher ends with, if it ends with one.\<close>

definition failure_class :: "launch_failure + int option \<Rightarrow> string option" where
  "failure_class res =
     (case res of Inl (Ereport_ERROR err) \<Rightarrow> Some (sqlstate_class err) | _ \<Rightarrow> None)"

text \<open>
  Concrete environments for the examples: a pass woken by the timeout, by
  \<^verbatim>\<open>SIGTERM\<close>, by \<^verbatim>\<open>SIGHUP\<close> (the file now says \<^verbatim>\<open>naptime = 5\<close>), a pass whose
  statement fails, and a wait that reports the death of the postmaster.
\<close>

definition timeout_pass :: cycle_env where
  "timeout_pass =
     \<lparr>sigs_in_wait = [], wait_rc = WL_TIMEOUT, raises = (\<lambda>c. False),
      reloaded = initial_gucs, sigs_in_tick = []\<rparr>"

definition sigterm_pass :: cycle_env where
  "sigterm_pass =
     \<lparr>sigs_in_wait = [SIGTERM], wait_rc = WL_LATCH_SET, raises = (\<lambda>c. False),
      reloaded = initial_gucs, sigs_in_tick = []\<rparr>"

definition sighup_pass :: cycle_env where
  "sighup_pass =
     \<lparr>sigs_in_wait = [SIGHUP], wait_rc = WL_LATCH_SET, raises = (\<lambda>c. False),
      reloaded = initial_gucs\<lparr>pglogical_ticker_naptime := 5\<rparr>, sigs_in_tick = []\<rparr>"

definition failing_pass :: cycle_env where
  "failing_pass =
     \<lparr>sigs_in_wait = [], wait_rc = WL_TIMEOUT, raises = (\<lambda>c. c = SPI_execute tick_query),
      reloaded = initial_gucs, sigs_in_tick = []\<rparr>"

definition postmaster_death_pass :: cycle_env where
  "postmaster_death_pass =
     \<lparr>sigs_in_wait = [], wait_rc = WL_POSTMASTER_DEATH, raises = (\<lambda>c. False),
      reloaded = initial_gucs, sigs_in_tick = []\<rparr>"

definition launch_reply :: "bool \<Rightarrow> BgwHandleStatus \<Rightarrow> int \<Rightarrow> launch_env" where
  "launch_reply ok status pid =
     \<lparr>MyProcPid = 100, register_ok = ok, startup_status = status, startup_pid = pid\<rparr>"

declare string_of_nat.simps [simp del]

section \<open>Properties\<close>

subsection \<open>Signals, call sequences and the loop\<close>

lemma got_sigterm_deliver:
  "got_sigterm (deliver sgs s) = (got_sigterm s \<or> SIGTERM \<in> set sgs)"
proof (induction sgs arbitrary: s)
  case Nil
  show ?case by simp
next
  case (Cons sg sgs)
  show ?case
    by (cases sg) (auto simp: Cons pglogical_ticker_sigterm_def pglogical_ticker_sighup_def)
qed

lemma got_sighup_deliver:
  "got_sighup (deliver sgs s) = (got_sighup s \<or> SIGHUP \<in> set sgs)"
proof (induction sgs arbitrary: s)
  case Nil
  show ?case by simp
next
  case (Cons sg sgs)
  show ?case
    by (cases sg) (auto simp: Cons pglogical_ticker_sigterm_def pglogical_ticker_sighup_def)
qed

lemma guc_deliver: "guc (deliver sgs s) = guc s"
proof (induction sgs arbitrary: s)
  case Nil
  show ?case by simp
next
  case (Cons sg sgs)
  show ?case
    by (cases sg) (auto simp: Cons pglogical_ticker_sigterm_def pglogical_ticker_sighup_def)
qed

lemma run_calls_quiet: "list_all (\<lambda>c. \<not> r c) cs \<Longrightarrow> run_calls r cs = (cs, None)"
  by (induction cs) auto

lemma run_calls_raise:
  "list_ex r cs \<Longrightarrow>
   \<exists>c \<in> set cs. r c \<and> run_calls r cs = (takeWhile (\<lambda>c. \<not> r c) cs @ [c], Some c)"
  by (induction cs) (auto split: prod.splits)

lemma run_calls_subset: "set (fst (run_calls r cs)) \<subseteq> set cs"
  by (induction cs) (auto split: prod.splits)

text \<open>Once the flag is set, the loop test fails and the process exits with status 1.\<close>

lemma main_loop_sigterm: "got_sigterm s \<Longrightarrow> main_loop s es = ([Proc_exit 1], Exited 1)"
  by (cases es) simp_all

text \<open>A pass in which nothing raises and the postmaster lives, in full.\<close>

lemma loop_body_quiet:
  assumes "no_postmaster_death e" and "quiet e"
  shows "\<exists>s'. loop_body s e =
           ([wait_call s, ResetLatch, CHECK_FOR_INTERRUPTS] @
            (if got_sighup s \<or> SIGHUP \<in> set (sigs_in_wait e) then [ProcessConfigFile] else []) @
            tick_calls, Inr s') \<and>
          got_sigterm s' =
            (got_sigterm s \<or> SIGTERM \<in> set (sigs_in_wait e) \<or> SIGTERM \<in> set (sigs_in_tick e)) \<and>
          got_sighup s' = (SIGHUP \<in> set (sigs_in_tick e)) \<and>
          guc s' = (if got_sighup s \<or> SIGHUP \<in> set (sigs_in_wait e) then reloaded e else guc s)"
proof -
  from assms(2) have rc: "run_calls (raises e) tick_calls = (tick_calls, None)"
    by (simp add: quiet_def run_calls_quiet)
  from assms show ?thesis
    by (simp add: loop_body_def Let_def rc quiet_def no_postmaster_death_def
        got_sigterm_deliver got_sighup_deliver guc_deliver)
qed

text \<open>The calls a pass can make.\<close>

lemma loop_body_calls:
  "set (fst (loop_body s e)) \<subseteq>
     {wait_call s, ResetLatch, CHECK_FOR_INTERRUPTS, ProcessConfigFile, Proc_exit 1} \<union>
     set tick_calls"
proof -
  obtain tr res where rc: "run_calls (raises e) tick_calls = (tr, res)"
    by (cases "run_calls (raises e) tick_calls")
  have "set (fst (run_calls (raises e) tick_calls)) \<subseteq> set tick_calls"
    by (rule run_calls_subset)
  with rc have tr: "set tr \<subseteq> set tick_calls" by simp
  have "set (fst (loop_body s e)) \<subseteq>
     {wait_call s, ResetLatch, CHECK_FOR_INTERRUPTS, ProcessConfigFile, Proc_exit 1} \<union> set tr"
    by (auto simp: loop_body_def Let_def rc split: if_splits option.splits)
  with tr show ?thesis by blast
qed

lemma loop_body_no_connect: "filter is_connect (fst (loop_body s e)) = []"
proof -
  have "\<not> is_connect c" if "c \<in> set (fst (loop_body s e))" for c
  proof -
    from that loop_body_calls [of s e] have
      "c \<in> {wait_call s, ResetLatch, CHECK_FOR_INTERRUPTS, ProcessConfigFile, Proc_exit 1} \<union>
         set tick_calls"
      by blast
    then show ?thesis by (auto simp: wait_call_def tick_calls_def)
  qed
  then show ?thesis by (simp add: filter_empty_conv)
qed

lemma main_loop_no_connect: "filter is_connect (fst (main_loop s env)) = []"
proof (induction env arbitrary: s)
  case Nil
  show ?case by (simp add: wait_call_def)
next
  case (Cons e es)
  note body = loop_body_no_connect [of s e]
  show ?case
  proof (cases "got_sigterm s")
    case True
    then show ?thesis by simp
  next
    case False
    with body Cons.IH show ?thesis
      by (cases "loop_body s e") (auto simp: split_beta split: sum.splits)
  qed
qed

lemma connection_calls_main:
  "connection_calls (fst (pglogical_ticker_main g main_arg name early env)) =
     [connect_call g (DatumGetObjectId main_arg)]"
  by (simp add: pglogical_ticker_main_def split_beta connection_calls_def startup_calls_def
      main_loop_no_connect connect_call_def split: option.splits)

text \<open>The only status the code passes to \<^verbatim>\<open>proc_exit\<close> is 1.\<close>

lemma loop_body_exit: "loop_body s e = (tr, Inl (Exited st)) \<Longrightarrow> st = 1"
  by (auto simp: loop_body_def Let_def split: if_splits prod.splits option.splits)

lemma main_loop_exit: "snd (main_loop s env) = Exited st \<Longrightarrow> st = 1"
proof (induction env arbitrary: s)
  case Nil
  then show ?case by (simp split: if_splits)
next
  case (Cons e es)
  show ?case
  proof (cases "got_sigterm s")
    case True
    with Cons.prems show ?thesis by simp
  next
    case False
    obtain tr res where body: "loop_body s e = (tr, res)"
      by (cases "loop_body s e")
    show ?thesis
    proof (cases res)
      case (Inl out)
      with body False Cons.prems have "loop_body s e = (tr, Inl (Exited st))" by simp
      then show ?thesis by (rule loop_body_exit)
    next
      case (Inr s')
      with body False Cons.prems have "snd (main_loop s' es) = Exited st"
        by (simp add: split_beta)
      then show ?thesis by (rule Cons.IH)
    qed
  qed
qed

lemma loop_body_exit_calls: "Proc_exit st \<in> set (fst (loop_body s e)) \<Longrightarrow> st = 1"
proof -
  assume "Proc_exit st \<in> set (fst (loop_body s e))"
  with loop_body_calls [of s e] have
    "Proc_exit st \<in> {wait_call s, ResetLatch, CHECK_FOR_INTERRUPTS, ProcessConfigFile, Proc_exit 1} \<union>
       set tick_calls"
    by blast
  then show ?thesis by (auto simp: wait_call_def tick_calls_def)
qed

lemma main_loop_exit_calls: "Proc_exit st \<in> set (fst (main_loop s env)) \<Longrightarrow> st = 1"
proof (induction env arbitrary: s)
  case Nil
  then show ?case by (simp add: wait_call_def split: if_splits)
next
  case (Cons e es)
  show ?case
  proof (cases "got_sigterm s")
    case True
    with Cons.prems show ?thesis by simp
  next
    case False
    obtain tr res where body: "loop_body s e = (tr, res)"
      by (cases "loop_body s e")
    from body have tr: "Proc_exit st \<in> set tr \<Longrightarrow> st = 1"
      using loop_body_exit_calls [of st s e] by simp
    show ?thesis
    proof (cases res)
      case (Inl out)
      with body False Cons.prems have "Proc_exit st \<in> set tr" by simp
      then show ?thesis by (rule tr)
    next
      case (Inr s')
      with body False Cons.prems have
        "Proc_exit st \<in> set tr \<or> Proc_exit st \<in> set (fst (main_loop s' es))"
        by (auto simp: split_beta)
      then show ?thesis using tr Cons.IH by blast
    qed
  qed
qed

lemma main_exit_calls:
  "Proc_exit st \<in> set (fst (pglogical_ticker_main g main_arg name early env)) \<Longrightarrow> st = 1"
proof -
  assume "Proc_exit st \<in> set (fst (pglogical_ticker_main g main_arg name early env))"
  then have "Proc_exit st \<in> set (fst (main_loop (deliver early (initial_state g)) env))"
    by (auto simp: pglogical_ticker_main_def split_beta startup_calls_def connect_call_def
        split: option.splits)
  then show ?thesis by (rule main_loop_exit_calls)
qed

subsection \<open>Conversions and registration\<close>

lemma oid_datum_roundtrip: "DatumGetObjectId (ObjectIdGetDatum x) = x"
  unfolding DatumGetObjectId_def ObjectIdGetDatum_def
  by (rule bit_word_eqI) (simp add: bit_simps)

lemma main_arg_static_worker: "bgw_main_arg (static_worker g i) = Int32GetDatum 0"
  by (simp add: static_worker_def)

lemma restart_time_static_worker:
  "bgw_restart_time (static_worker g i) = pglogical_ticker_restart_time g"
  by (simp add: static_worker_def common_worker_def)

lemma registered_PG_init:
  "registered (PG_init preload g) =
     (if preload \<and> pglogical_ticker_database g \<noteq> None then [static_worker g 1] else [])"
  by (simp add: PG_init_def pglogical_ticker_total_workers_def)

lemma string_of_nat_one: "string_of_nat (Suc 0) = ''1''"
  by code_simp

subsection \<open>The example passes\<close>

lemmas pass_defs =
  timeout_pass_def sigterm_pass_def sighup_pass_def failing_pass_def postmaster_death_pass_def

lemmas wake_bits = WL_LATCH_SET_def WL_TIMEOUT_def WL_POSTMASTER_DEATH_def

lemma example_passes_alive:
  "no_postmaster_death timeout_pass" "no_postmaster_death sigterm_pass"
  "no_postmaster_death sighup_pass" "no_postmaster_death failing_pass"
  by (simp_all add: no_postmaster_death_def pass_defs wake_bits)

lemma example_passes_quiet: "quiet timeout_pass" "quiet sigterm_pass" "quiet sighup_pass"
  by (simp_all add: quiet_def pass_defs list_all_iff)

lemma wait_call_initial:
  "wait_call (initial_state initial_gucs) = WaitLatch 25 10000"
  by (simp add: wait_call_def initial_state_def initial_gucs_def wake_bits)

section \<open>The claims\<close>

subsection \<open>C1: a shutdown signal during the wait\<close>

text \<open>
  C1 (amended). If \<^verbatim>\<open>SIGTERM\<close> is delivered while the worker is blocked in its wait,
  the wait does not report the death of the postmaster and no host call of the pass
  raises, then the worker finishes the pass it is in: it runs the configuration reload if
  one is pending and then exactly one unit of work, and only then, at the next loop test,
  leaves the loop and calls \<^verbatim>\<open>proc_exit(1)\<close>. It never waits again, whatever the rest of
  the script holds.
\<close>

theorem shutdown_in_wait_one_more_tick:
  assumes "\<not> got_sigterm s" and "SIGTERM \<in> set (sigs_in_wait e)"
    and "no_postmaster_death e" and "quiet e"
  shows "main_loop s (e # es) =
           ([wait_call s, ResetLatch, CHECK_FOR_INTERRUPTS] @
            (if got_sighup s \<or> SIGHUP \<in> set (sigs_in_wait e) then [ProcessConfigFile] else []) @
            tick_calls @ [Proc_exit 1], Exited 1)"
proof -
  from loop_body_quiet [OF assms(3,4), of s] obtain s' where
    body: "loop_body s e =
           ([wait_call s, ResetLatch, CHECK_FOR_INTERRUPTS] @
            (if got_sighup s \<or> SIGHUP \<in> set (sigs_in_wait e) then [ProcessConfigFile] else []) @
            tick_calls, Inr s')"
    and stop: "got_sigterm s' =
           (got_sigterm s \<or> SIGTERM \<in> set (sigs_in_wait e) \<or> SIGTERM \<in> set (sigs_in_tick e))"
    by blast
  from stop assms(2) have "got_sigterm s'" by simp
  then have "main_loop s' es = ([Proc_exit 1], Exited 1)"
    by (rule main_loop_sigterm)
  with body assms(1) show ?thesis by simp
qed

theorem shutdown_in_wait_one_more_tick_witness:
  "\<not> got_sigterm (initial_state initial_gucs) \<and>
   SIGTERM \<in> set (sigs_in_wait sigterm_pass) \<and>
   no_postmaster_death sigterm_pass \<and> quiet sigterm_pass \<and>
   main_loop (initial_state initial_gucs) [sigterm_pass, timeout_pass] =
     ([WaitLatch 25 10000, ResetLatch, CHECK_FOR_INTERRUPTS] @ tick_calls @ [Proc_exit 1],
      Exited 1)"
proof -
  have h1: "\<not> got_sigterm (initial_state initial_gucs)"
    by (simp add: initial_state_def)
  have h2: "SIGTERM \<in> set (sigs_in_wait sigterm_pass)"
    by (simp add: sigterm_pass_def)
  have h3: "\<not> (got_sighup (initial_state initial_gucs) \<or> SIGHUP \<in> set (sigs_in_wait sigterm_pass))"
    by (simp add: initial_state_def sigterm_pass_def)
  from shutdown_in_wait_one_more_tick
    [OF h1 h2 example_passes_alive(2) example_passes_quiet(2), of "[timeout_pass]"]
  show ?thesis
    using h1 h2 h3 example_passes_alive(2) example_passes_quiet(2)
    by (simp add: wait_call_initial)
qed

text \<open>
  The statement of C1 as it was given, that no unit of work runs between the wake by
  \<^verbatim>\<open>SIGTERM\<close> and the exit, fails: started with the default configuration and woken
  from its first wait by \<^verbatim>\<open>SIGTERM\<close>, the worker runs the whole transaction, the
  statement included, before it exits.
\<close>

theorem shutdown_in_wait_counterexample:
  "SIGTERM \<in> set (sigs_in_wait sigterm_pass) \<and>
   main_loop (initial_state initial_gucs) [sigterm_pass] =
     ([WaitLatch 25 10000, ResetLatch, CHECK_FOR_INTERRUPTS,
       SetCurrentStatementStartTimestamp, StartTransactionCommand, SPI_connect,
       PushActiveSnapshot,
       Pgstat_report_activity STATE_RUNNING (Some ''SELECT pglogical_ticker.tick();''),
       SPI_execute ''SELECT pglogical_ticker.tick();'',
       SPI_finish, PopActiveSnapshot, CommitTransactionCommand, Pgstat_report_stat,
       Pgstat_report_activity STATE_IDLE None, Proc_exit 1],
      Exited 1)"
  by (simp add: sigterm_pass_def initial_state_def initial_gucs_def loop_body_def Let_def
      wait_call_def wake_bits tick_calls_def tick_query_def
      pglogical_ticker_sigterm_def)

subsection \<open>C2: a reload signal during the wait\<close>

text \<open>
  C2 (amended). If \<^verbatim>\<open>SIGHUP\<close> is delivered while the worker is blocked in its wait,
  the wait does not report the death of the postmaster and no host call of the pass
  raises, then the worker re-reads the configuration and, in the same pass, runs one
  unit of work before the loop comes back to its test and its wait: the transition is
  waiting, reload, tick, waiting. At the next loop test the variables hold the re-read
  values and the reload flag is clear unless another \<^verbatim>\<open>SIGHUP\<close> came during the tick.
\<close>

theorem reload_then_tick:
  assumes "\<not> got_sigterm s" and "SIGHUP \<in> set (sigs_in_wait e)"
    and "no_postmaster_death e" and "quiet e"
  shows "\<exists>s'. main_loop s (e # es) =
           ([wait_call s, ResetLatch, CHECK_FOR_INTERRUPTS, ProcessConfigFile] @ tick_calls @
            fst (main_loop s' es), snd (main_loop s' es)) \<and>
          guc s' = reloaded e \<and>
          got_sighup s' = (SIGHUP \<in> set (sigs_in_tick e))"
proof -
  from loop_body_quiet [OF assms(3,4), of s] obtain s' where
    body: "loop_body s e =
           ([wait_call s, ResetLatch, CHECK_FOR_INTERRUPTS] @
            (if got_sighup s \<or> SIGHUP \<in> set (sigs_in_wait e) then [ProcessConfigFile] else []) @
            tick_calls, Inr s')"
    and hup: "got_sighup s' = (SIGHUP \<in> set (sigs_in_tick e))"
    and conf: "guc s' =
           (if got_sighup s \<or> SIGHUP \<in> set (sigs_in_wait e) then reloaded e else guc s)"
    by blast
  from body assms(1,2) have
    "main_loop s (e # es) =
       ([wait_call s, ResetLatch, CHECK_FOR_INTERRUPTS, ProcessConfigFile] @ tick_calls @
        fst (main_loop s' es), snd (main_loop s' es))"
    by (simp add: split_beta)
  moreover from conf assms(2) have "guc s' = reloaded e" by simp
  ultimately show ?thesis using hup by blast
qed

theorem reload_then_tick_witness:
  "\<not> got_sigterm (initial_state initial_gucs) \<and>
   SIGHUP \<in> set (sigs_in_wait sighup_pass) \<and>
   no_postmaster_death sighup_pass \<and> quiet sighup_pass \<and>
   (\<exists>s'. main_loop (initial_state initial_gucs) [sighup_pass] =
           ([WaitLatch 25 10000, ResetLatch, CHECK_FOR_INTERRUPTS, ProcessConfigFile] @
            tick_calls @ fst (main_loop s' []), snd (main_loop s' [])) \<and>
          pglogical_ticker_naptime (guc s') = 5 \<and> \<not> got_sighup s')"
proof -
  have h1: "\<not> got_sigterm (initial_state initial_gucs)"
    by (simp add: initial_state_def)
  have h2: "SIGHUP \<in> set (sigs_in_wait sighup_pass)"
    by (simp add: sighup_pass_def)
  have h3: "pglogical_ticker_naptime (reloaded sighup_pass) = 5" "sigs_in_tick sighup_pass = []"
    by (simp_all add: sighup_pass_def)
  from reload_then_tick [OF h1 h2 example_passes_alive(3) example_passes_quiet(3), of "[]"]
  show ?thesis
    using h1 h2 h3 example_passes_alive(3) example_passes_quiet(3)
    by (auto simp: wait_call_initial)
qed

text \<open>
  The statement of C2 as it was given, that a reload signal alone causes no unit of
  work, fails: started with the default configuration and woken from its first wait by
  \<^verbatim>\<open>SIGHUP\<close> alone (the latch is set, the timeout has not expired), the worker reloads,
  runs the transaction with the statement, and then waits again, now with the new
  timeout.
\<close>

theorem reload_signal_counterexample:
  "sigs_in_wait sighup_pass = [SIGHUP] \<and> wait_rc sighup_pass = WL_LATCH_SET \<and>
   main_loop (initial_state initial_gucs) [sighup_pass] =
     ([WaitLatch 25 10000, ResetLatch, CHECK_FOR_INTERRUPTS, ProcessConfigFile,
       SetCurrentStatementStartTimestamp, StartTransactionCommand, SPI_connect,
       PushActiveSnapshot,
       Pgstat_report_activity STATE_RUNNING (Some ''SELECT pglogical_ticker.tick();''),
       SPI_execute ''SELECT pglogical_ticker.tick();'',
       SPI_finish, PopActiveSnapshot, CommitTransactionCommand, Pgstat_report_stat,
       Pgstat_report_activity STATE_IDLE None, WaitLatch 25 5000],
      Blocked_in_wait)"
  by (simp add: sighup_pass_def initial_state_def initial_gucs_def loop_body_def Let_def
      wait_call_def wake_bits tick_calls_def tick_query_def
      pglogical_ticker_sighup_def)

subsection \<open>C3: an error in the unit of work\<close>

text \<open>
  C3 (amended). In a pass in which a call of the unit of work raises an error (the
  postmaster lives and neither the interrupt check nor the reload raises), the worker
  does not catch the error: the run of \<^verbatim>\<open>pglogical_ticker_main\<close> ends at the raising
  call. No later call of the transaction is made (no commit, and no abort either), and
  there is no further wait and no further pass, whatever the rest of the script holds.
\<close>

theorem tick_error_leaves_loop:
  assumes "\<not> got_sigterm s" and "no_postmaster_death e"
    and "\<not> raises e CHECK_FOR_INTERRUPTS" and "\<not> raises e ProcessConfigFile"
    and "list_ex (raises e) tick_calls"
  shows "\<exists>c \<in> set tick_calls. raises e c \<and>
           main_loop s (e # es) =
             ([wait_call s, ResetLatch, CHECK_FOR_INTERRUPTS] @
              (if got_sighup s \<or> SIGHUP \<in> set (sigs_in_wait e) then [ProcessConfigFile] else []) @
              takeWhile (\<lambda>c. \<not> raises e c) tick_calls @ [c], Raised c)"
proof -
  from run_calls_raise [OF assms(5)] obtain c where
    c: "c \<in> set tick_calls" "raises e c"
    and rc: "run_calls (raises e) tick_calls =
               (takeWhile (\<lambda>c. \<not> raises e c) tick_calls @ [c], Some c)"
    by blast
  from assms(1-4) have
    "main_loop s (e # es) =
       ([wait_call s, ResetLatch, CHECK_FOR_INTERRUPTS] @
        (if got_sighup s \<or> SIGHUP \<in> set (sigs_in_wait e) then [ProcessConfigFile] else []) @
        takeWhile (\<lambda>c. \<not> raises e c) tick_calls @ [c], Raised c)"
    by (simp add: loop_body_def Let_def rc no_postmaster_death_def got_sighup_deliver)
  with c show ?thesis by blast
qed

theorem tick_error_leaves_loop_witness:
  "\<not> got_sigterm (initial_state initial_gucs) \<and> no_postmaster_death failing_pass \<and>
   \<not> raises failing_pass CHECK_FOR_INTERRUPTS \<and> \<not> raises failing_pass ProcessConfigFile \<and>
   list_ex (raises failing_pass) tick_calls \<and>
   (\<exists>c \<in> set tick_calls. raises failing_pass c \<and>
      main_loop (initial_state initial_gucs) [failing_pass, timeout_pass] =
        ([WaitLatch 25 10000, ResetLatch, CHECK_FOR_INTERRUPTS] @
         takeWhile (\<lambda>c. \<not> raises failing_pass c) tick_calls @ [c], Raised c))"
proof -
  have h1: "\<not> got_sigterm (initial_state initial_gucs)"
    by (simp add: initial_state_def)
  have h3: "\<not> raises failing_pass CHECK_FOR_INTERRUPTS"
    and h4: "\<not> raises failing_pass ProcessConfigFile"
    and h5: "list_ex (raises failing_pass) tick_calls"
    by (simp_all add: failing_pass_def tick_calls_def)
  have h6: "\<not> (got_sighup (initial_state initial_gucs) \<or> SIGHUP \<in> set (sigs_in_wait failing_pass))"
    by (simp add: initial_state_def failing_pass_def)
  from tick_error_leaves_loop [OF h1 example_passes_alive(4) h3 h4 h5, of "[timeout_pass]"]
  show ?thesis
    using h1 h3 h4 h5 h6 example_passes_alive(4)
    by (simp add: wait_call_initial)
qed

text \<open>
  The statement of C3 as it was given, that the loop proceeds to the next wait after a
  failed unit of work, fails: with a first pass whose statement raises and a second pass
  ready in the script, the run ends at \<^verbatim>\<open>SPI_execute\<close>; the second wait is never
  entered.
\<close>

theorem tick_error_counterexample:
  "raises failing_pass (SPI_execute tick_query) \<and>
   main_loop (initial_state initial_gucs) [failing_pass, timeout_pass] =
     ([WaitLatch 25 10000, ResetLatch, CHECK_FOR_INTERRUPTS,
       SetCurrentStatementStartTimestamp, StartTransactionCommand, SPI_connect,
       PushActiveSnapshot,
       Pgstat_report_activity STATE_RUNNING (Some ''SELECT pglogical_ticker.tick();''),
       SPI_execute ''SELECT pglogical_ticker.tick();''],
      Raised (SPI_execute ''SELECT pglogical_ticker.tick();''))"
  by (simp add: failing_pass_def initial_state_def initial_gucs_def loop_body_def Let_def
      wait_call_def wake_bits tick_calls_def tick_query_def)

subsection \<open>C4: registration of the dynamic worker fails\<close>

text \<open>
  C4 (amended). For every call of the launcher in which the registration of the dynamic
  worker fails at once, the launcher raises no error: it returns SQL \<^verbatim>\<open>NULL\<close> to the
  caller. The failed registration is the only host call it makes; it does not wait for a
  start, so the call leaves no worker and no registration behind.
\<close>

theorem launch_registration_failure_returns_null:
  assumes "\<not> register_ok env"
  shows "pglogical_ticker_launch g env db_oid =
           ([RegisterDynamicBackgroundWorker (dynamic_worker g (MyProcPid env) db_oid)],
            Inr None)"
  using assms by (simp add: pglogical_ticker_launch_def Let_def)

theorem launch_registration_failure_returns_null_witness:
  "\<not> register_ok (launch_reply False BGWH_STOPPED 0) \<and>
   pglogical_ticker_launch initial_gucs (launch_reply False BGWH_STOPPED 0) 16384 =
     ([RegisterDynamicBackgroundWorker (dynamic_worker initial_gucs 100 16384)], Inr None)"
  using launch_registration_failure_returns_null
    [of "launch_reply False BGWH_STOPPED 0" initial_gucs 16384]
  by (simp add: launch_reply_def)

text \<open>
  The statement of C4 as it was given, that a failed registration is reported as a
  resource-exhaustion error, fails: with the registry refusing the worker, the call for
  database 16384 ends with the value \<^verbatim>\<open>NULL\<close>, not with an error.
\<close>

theorem launch_registration_failure_counterexample:
  "snd (pglogical_ticker_launch initial_gucs (launch_reply False BGWH_STOPPED 0) 16384) =
     Inr None \<and>
   failure_class
     (snd (pglogical_ticker_launch initial_gucs (launch_reply False BGWH_STOPPED 0) 16384)) =
     None"
  by (simp add: pglogical_ticker_launch_def Let_def launch_reply_def failure_class_def)

subsection \<open>C5: the two errors of the start wait\<close>

text \<open>
  C5 (amended). For every call of the launcher whose registration succeeds, if the wait
  reports \<^verbatim>\<open>BGWH_POSTMASTER_DIED\<close> the launcher fails with an error of the same code,
  \<^verbatim>\<open>ERRCODE_INSUFFICIENT_RESOURCES\<close>, and so of the same class, as the error it raises
  when the wait reports \<^verbatim>\<open>BGWH_STOPPED\<close>; the two errors differ in their message and
  in their hint.
\<close>

theorem launch_postmaster_died_error:
  assumes "register_ok env" and "startup_status env = BGWH_POSTMASTER_DIED"
    and "register_ok env'" and "startup_status env' = BGWH_STOPPED"
  shows "snd (pglogical_ticker_launch g env db_oid) = Inl (Ereport_ERROR postmaster_died_error) \<and>
         snd (pglogical_ticker_launch g' env' db_oid') = Inl (Ereport_ERROR stopped_error) \<and>
         sqlerrcode postmaster_died_error = ERRCODE_INSUFFICIENT_RESOURCES \<and>
         sqlerrcode stopped_error = ERRCODE_INSUFFICIENT_RESOURCES \<and>
         sqlstate_class postmaster_died_error = sqlstate_class stopped_error \<and>
         errmsg postmaster_died_error \<noteq> errmsg stopped_error \<and>
         errhint postmaster_died_error \<noteq> errhint stopped_error"
  using assms
  by (simp add: pglogical_ticker_launch_def Let_def postmaster_died_error_def stopped_error_def
      sqlstate_class_def)

theorem launch_postmaster_died_error_witness:
  "register_ok (launch_reply True BGWH_POSTMASTER_DIED 0) \<and>
   startup_status (launch_reply True BGWH_POSTMASTER_DIED 0) = BGWH_POSTMASTER_DIED \<and>
   register_ok (launch_reply True BGWH_STOPPED 0) \<and>
   startup_status (launch_reply True BGWH_STOPPED 0) = BGWH_STOPPED \<and>
   snd (pglogical_ticker_launch initial_gucs (launch_reply True BGWH_POSTMASTER_DIED 0) 16384) =
     Inl (Ereport_ERROR postmaster_died_error) \<and>
   snd (pglogical_ticker_launch initial_gucs (launch_reply True BGWH_STOPPED 0) 16384) =
     Inl (Ereport_ERROR stopped_error) \<and>
   errmsg postmaster_died_error \<noteq> errmsg stopped_error"
  using launch_postmaster_died_error
    [of "launch_reply True BGWH_POSTMASTER_DIED 0" "launch_reply True BGWH_STOPPED 0"
        initial_gucs 16384 initial_gucs 16384]
  by (simp add: launch_reply_def)

text \<open>
  The statement of C5 as it was given, that the error for an unavailable supervisor is
  of another class than the one for a stopped worker, fails: for database 16384 both
  calls end with an error of SQLSTATE class 53, insufficient resources.
\<close>

theorem launch_error_class_counterexample:
  "failure_class
     (snd (pglogical_ticker_launch initial_gucs (launch_reply True BGWH_POSTMASTER_DIED 0) 16384)) =
     Some ''53'' \<and>
   failure_class
     (snd (pglogical_ticker_launch initial_gucs (launch_reply True BGWH_STOPPED 0) 16384)) =
     Some ''53''"
  by (simp add: failure_class_def pglogical_ticker_launch_def Let_def sqlstate_class_def
      postmaster_died_error_def stopped_error_def ERRCODE_INSUFFICIENT_RESOURCES_def
      launch_reply_def)

subsection \<open>C6: a started worker\<close>

text \<open>
  C6. For every call of the launcher, whatever the database identity, if the
  registration succeeds and the wait reports \<^verbatim>\<open>BGWH_STARTED\<close> with process id \<open>pid\<close>,
  the launcher returns \<open>pid\<close> as its value; with 4242 reported it returns 4242.
\<close>

theorem launch_started_returns_pid:
  assumes "register_ok env" and "startup_status env = BGWH_STARTED"
  shows "snd (pglogical_ticker_launch g env db_oid) = Inr (Some (startup_pid env))"
  using assms by (simp add: pglogical_ticker_launch_def Let_def)

theorem launch_started_returns_pid_witness:
  "register_ok (launch_reply True BGWH_STARTED 4242) \<and>
   startup_status (launch_reply True BGWH_STARTED 4242) = BGWH_STARTED \<and>
   snd (pglogical_ticker_launch initial_gucs (launch_reply True BGWH_STARTED 4242) 16384) =
     Inr (Some 4242)"
  using launch_started_returns_pid [of "launch_reply True BGWH_STARTED 4242" initial_gucs 16384]
  by (simp add: launch_reply_def)

subsection \<open>C7: the exit status\<close>

text \<open>
  C7. Whenever the worker code ends the process, the status is 1, which is not zero:
  every run that ends by \<^verbatim>\<open>proc_exit\<close> ends with status 1, and every \<^verbatim>\<open>proc_exit\<close>
  call in a trace carries 1. In particular, once the shutdown flag is set the loop test
  fails and the process exits with 1; and when the wait reports the death of the
  postmaster the process exits with the same status 1 right after the latch is reset,
  with no further call.
\<close>

theorem worker_exit_status:
  "(snd (pglogical_ticker_main g main_arg name early env) = Exited st \<longrightarrow> st = 1 \<and> st \<noteq> 0) \<and>
   (Proc_exit st' \<in> set (fst (pglogical_ticker_main g main_arg name early env)) \<longrightarrow> st' = 1) \<and>
   (got_sigterm s \<longrightarrow> main_loop s env' = ([Proc_exit 1], Exited 1)) \<and>
   (\<not> got_sigterm s' \<and> wait_rc e AND WL_POSTMASTER_DEATH \<noteq> 0 \<longrightarrow>
      main_loop s' (e # es) = ([wait_call s', ResetLatch, Proc_exit 1], Exited 1))"
proof (intro conjI impI)
  assume "snd (pglogical_ticker_main g main_arg name early env) = Exited st"
  then have "snd (main_loop (deliver early (initial_state g)) env) = Exited st"
    by (simp add: pglogical_ticker_main_def split_beta)
  then show "st = 1" by (rule main_loop_exit)
  then show "st \<noteq> 0" by simp
next
  assume "Proc_exit st' \<in> set (fst (pglogical_ticker_main g main_arg name early env))"
  then show "st' = 1" by (rule main_exit_calls)
next
  assume "got_sigterm s"
  then show "main_loop s env' = ([Proc_exit 1], Exited 1)" by (rule main_loop_sigterm)
next
  assume "\<not> got_sigterm s' \<and> wait_rc e AND WL_POSTMASTER_DEATH \<noteq> 0"
  then show "main_loop s' (e # es) = ([wait_call s', ResetLatch, Proc_exit 1], Exited 1)"
    by (simp add: loop_body_def Let_def)
qed

theorem worker_exit_status_witness:
  "snd (pglogical_ticker_main initial_gucs 0 ''pglogical_ticker worker 1'' [SIGTERM] []) =
     Exited 1 \<and>
   Proc_exit 1 \<in>
     set (fst (pglogical_ticker_main initial_gucs 0 ''pglogical_ticker worker 1'' [SIGTERM] [])) \<and>
   got_sigterm (pglogical_ticker_sigterm (initial_state initial_gucs)) \<and>
   main_loop (pglogical_ticker_sigterm (initial_state initial_gucs)) [timeout_pass] =
     ([Proc_exit 1], Exited 1) \<and>
   \<not> got_sigterm (initial_state initial_gucs) \<and>
   wait_rc postmaster_death_pass AND WL_POSTMASTER_DEATH \<noteq> 0 \<and>
   main_loop (initial_state initial_gucs) [postmaster_death_pass, timeout_pass] =
     ([WaitLatch 25 10000, ResetLatch, Proc_exit 1], Exited 1)"
  using worker_exit_status
    [where g = initial_gucs and main_arg = 0 and name = "''pglogical_ticker worker 1''"
       and early = "[SIGTERM]" and env = "[]" and st = 1 and st' = 1
       and s = "pglogical_ticker_sigterm (initial_state initial_gucs)" and env' = "[timeout_pass]"
       and s' = "initial_state initial_gucs" and e = postmaster_death_pass
       and es = "[timeout_pass]"]
  by (simp add: pglogical_ticker_main_def initial_state_def pglogical_ticker_sigterm_def
      postmaster_death_pass_def wake_bits wait_call_def initial_gucs_def)

subsection \<open>C8: the connection target\<close>

text \<open>
  C8. Every start of the worker makes exactly one connection call. When the configured
  database name is present the connection is by that name, whatever the argument the
  worker was launched with, also for a worker launched dynamically for a database
  identity; when the name is absent the connection is by the identity of the launch
  argument, which for a dynamically launched worker is the identity given to the
  launcher.
\<close>

theorem connection_target:
  "(pglogical_ticker_database g = Some d \<longrightarrow>
      connection_calls (fst (pglogical_ticker_main g main_arg name early env)) =
        [BackgroundWorkerInitializeConnection d]) \<and>
   (pglogical_ticker_database g = None \<longrightarrow>
      connection_calls (fst (pglogical_ticker_main g main_arg name early env)) =
        [BackgroundWorkerInitializeConnectionByOid (DatumGetObjectId main_arg) InvalidOid]) \<and>
   (pglogical_ticker_database g = Some d \<longrightarrow>
      connection_calls
        (fst (pglogical_ticker_main g (bgw_main_arg (dynamic_worker g' pid db_oid))
                name early env)) =
        [BackgroundWorkerInitializeConnection d]) \<and>
   (pglogical_ticker_database g = None \<longrightarrow>
      connection_calls
        (fst (pglogical_ticker_main g (bgw_main_arg (dynamic_worker g' pid db_oid))
                name early env)) =
        [BackgroundWorkerInitializeConnectionByOid db_oid InvalidOid])"
  by (simp add: connection_calls_main connect_call_def dynamic_worker_def oid_datum_roundtrip)

theorem connection_target_witness:
  "pglogical_ticker_database (initial_gucs\<lparr>pglogical_ticker_database := Some ''postgres''\<rparr>) =
     Some ''postgres'' \<and>
   connection_calls
     (fst (pglogical_ticker_main (initial_gucs\<lparr>pglogical_ticker_database := Some ''postgres''\<rparr>)
             (bgw_main_arg (dynamic_worker initial_gucs 100 16384))
             ''pglogical_ticker worker'' [] [timeout_pass])) =
     [BackgroundWorkerInitializeConnection ''postgres''] \<and>
   pglogical_ticker_database initial_gucs = None \<and>
   connection_calls
     (fst (pglogical_ticker_main initial_gucs
             (bgw_main_arg (dynamic_worker initial_gucs 100 16384))
             ''pglogical_ticker worker'' [] [timeout_pass])) =
     [BackgroundWorkerInitializeConnectionByOid 16384 0]"
  using
    connection_target
      [where g = "initial_gucs\<lparr>pglogical_ticker_database := Some ''postgres''\<rparr>"
         and d = "''postgres''" and g' = initial_gucs and pid = 100 and db_oid = 16384
         and name = "''pglogical_ticker worker''" and early = "[]" and env = "[timeout_pass]"]
    connection_target
      [where g = initial_gucs and g' = initial_gucs and pid = 100 and db_oid = 16384
         and name = "''pglogical_ticker worker''" and early = "[]" and env = "[timeout_pass]"]
  by (simp add: initial_gucs_def InvalidOid_def dynamic_worker_def oid_datum_roundtrip)

subsection \<open>C9: the bounds of the settings and the restart time\<close>

text \<open>
  C9. The module defines the tick interval with the range 1 to \<^verbatim>\<open>INT_MAX\<close> and the
  restart time with the range -1 to \<^verbatim>\<open>INT_MAX\<close>, so a value is accepted exactly when it
  lies in its range. The restart time of the configuration is copied unchanged into
  the worker record given to the host, for every static worker and for the dynamic
  one: the value -1 arrives as -1, and the registration calls are made whatever the
  value is.
\<close>

theorem config_bounds_and_restart_policy:
  "(guc_accepts naptime_variable x \<longleftrightarrow> 1 \<le> x \<and> x \<le> INT_MAX) \<and>
   (guc_accepts restart_time_variable x \<longleftrightarrow> - 1 \<le> x \<and> x \<le> INT_MAX) \<and>
   take 3 (PG_init preload g) =
     [DefineCustomIntVariable naptime_variable, DefineCustomStringVariable database_variable,
      DefineCustomIntVariable restart_time_variable] \<and>
   (\<forall>w \<in> set (registered (PG_init preload g)).
      bgw_restart_time w = pglogical_ticker_restart_time g) \<and>
   (preload \<and> pglogical_ticker_database g \<noteq> None \<longrightarrow>
      map bgw_restart_time (registered (PG_init preload g)) = [pglogical_ticker_restart_time g]) \<and>
   (\<exists>w rest. fst (pglogical_ticker_launch g lenv db_oid) =
        RegisterDynamicBackgroundWorker w # rest \<and>
      bgw_restart_time w = pglogical_ticker_restart_time g)"
proof -
  have nap: "guc_accepts naptime_variable x \<longleftrightarrow> 1 \<le> x \<and> x \<le> INT_MAX"
    by (simp add: guc_accepts_def naptime_variable_def)
  have rst: "guc_accepts restart_time_variable x \<longleftrightarrow> - 1 \<le> x \<and> x \<le> INT_MAX"
    by (simp add: guc_accepts_def restart_time_variable_def)
  have defs: "take 3 (PG_init preload g) =
     [DefineCustomIntVariable naptime_variable, DefineCustomStringVariable database_variable,
      DefineCustomIntVariable restart_time_variable]"
    by (simp add: PG_init_def)
  have static: "\<forall>w \<in> set (registered (PG_init preload g)).
      bgw_restart_time w = pglogical_ticker_restart_time g"
    by (simp add: registered_PG_init restart_time_static_worker)
  have one: "preload \<and> pglogical_ticker_database g \<noteq> None \<longrightarrow>
      map bgw_restart_time (registered (PG_init preload g)) = [pglogical_ticker_restart_time g]"
    by (simp add: registered_PG_init restart_time_static_worker)
  have "fst (pglogical_ticker_launch g lenv db_oid) =
      RegisterDynamicBackgroundWorker (dynamic_worker g (MyProcPid lenv) db_oid) #
      (if register_ok lenv then [WaitForBackgroundWorkerStartup] else [])"
    by (simp add: pglogical_ticker_launch_def Let_def)
  moreover have "bgw_restart_time (dynamic_worker g (MyProcPid lenv) db_oid) =
      pglogical_ticker_restart_time g"
    by (simp add: dynamic_worker_def)
  ultimately have dyn: "\<exists>w rest. fst (pglogical_ticker_launch g lenv db_oid) =
      RegisterDynamicBackgroundWorker w # rest \<and>
      bgw_restart_time w = pglogical_ticker_restart_time g"
    by blast
  from nap rst defs static one dyn show ?thesis by blast
qed

theorem config_bounds_and_restart_policy_witness:
  "guc_accepts naptime_variable 1 \<and> \<not> guc_accepts naptime_variable 0 \<and>
   guc_accepts restart_time_variable (- 1) \<and> \<not> guc_accepts restart_time_variable (- 2) \<and>
   map bgw_restart_time
     (registered (PG_init True
        \<lparr>pglogical_ticker_naptime = 10, pglogical_ticker_database = Some ''postgres'',
         pglogical_ticker_restart_time = - 1\<rparr>)) = [- 1] \<and>
   (\<exists>w rest. fst (pglogical_ticker_launch
        \<lparr>pglogical_ticker_naptime = 10, pglogical_ticker_database = Some ''postgres'',
         pglogical_ticker_restart_time = - 1\<rparr> (launch_reply True BGWH_STARTED 4242) 16384) =
        RegisterDynamicBackgroundWorker w # rest \<and>
      bgw_restart_time w = - 1)"
  using
    config_bounds_and_restart_policy
      [where x = 1 and preload = True
         and g = "\<lparr>pglogical_ticker_naptime = 10, pglogical_ticker_database = Some ''postgres'',
                    pglogical_ticker_restart_time = - 1\<rparr>"
         and lenv = "launch_reply True BGWH_STARTED 4242" and db_oid = 16384]
    config_bounds_and_restart_policy [where x = 0]
    config_bounds_and_restart_policy [where x = "- 1"]
    config_bounds_and_restart_policy [where x = "- 2"]
  by (simp add: INT_MAX_def)

subsection \<open>C10: the static worker\<close>

text \<open>
  C10. At module load a static worker is registered exactly when shared-library preload
  is in progress and the database setting is set; then exactly one worker is registered.
  Its launch argument is 0, which read as a database identity is the invalid identity.
  So when that worker starts with the database setting present it connects by the
  configured name; were the setting absent at its start, it would ask for the invalid
  identity.
\<close>

theorem static_worker_registration:
  "registered (PG_init preload g) =
     (if preload \<and> pglogical_ticker_database g \<noteq> None then [static_worker g 1] else []) \<and>
   DatumGetObjectId (bgw_main_arg (static_worker g 1)) = InvalidOid \<and>
   InvalidOid = 0 \<and>
   (pglogical_ticker_database g' = Some d \<longrightarrow>
      connection_calls
        (fst (pglogical_ticker_main g' (bgw_main_arg (static_worker g 1)) name early env)) =
        [BackgroundWorkerInitializeConnection d]) \<and>
   (pglogical_ticker_database g' = None \<longrightarrow>
      connection_calls
        (fst (pglogical_ticker_main g' (bgw_main_arg (static_worker g 1)) name early env)) =
        [BackgroundWorkerInitializeConnectionByOid InvalidOid InvalidOid])"
  by (simp add: registered_PG_init main_arg_static_worker Int32GetDatum_def DatumGetObjectId_def
      InvalidOid_def connection_calls_main connect_call_def)

theorem static_worker_registration_witness:
  "registered (PG_init True (initial_gucs\<lparr>pglogical_ticker_database := Some ''postgres''\<rparr>)) =
     [static_worker (initial_gucs\<lparr>pglogical_ticker_database := Some ''postgres''\<rparr>) 1] \<and>
   registered (PG_init False (initial_gucs\<lparr>pglogical_ticker_database := Some ''postgres''\<rparr>)) = [] \<and>
   registered (PG_init True initial_gucs) = [] \<and>
   bgw_name (static_worker (initial_gucs\<lparr>pglogical_ticker_database := Some ''postgres''\<rparr>) 1) =
     ''pglogical_ticker worker 1'' \<and>
   connection_calls
     (fst (pglogical_ticker_main (initial_gucs\<lparr>pglogical_ticker_database := Some ''postgres''\<rparr>)
        (bgw_main_arg (static_worker (initial_gucs\<lparr>pglogical_ticker_database := Some ''postgres''\<rparr>) 1))
        ''pglogical_ticker worker 1'' [] [timeout_pass])) =
     [BackgroundWorkerInitializeConnection ''postgres''] \<and>
   connection_calls
     (fst (pglogical_ticker_main initial_gucs
        (bgw_main_arg (static_worker (initial_gucs\<lparr>pglogical_ticker_database := Some ''postgres''\<rparr>) 1))
        ''pglogical_ticker worker 1'' [] [timeout_pass])) =
     [BackgroundWorkerInitializeConnectionByOid 0 0]"
  using
    static_worker_registration
      [where preload = True
         and g = "initial_gucs\<lparr>pglogical_ticker_database := Some ''postgres''\<rparr>"
         and g' = "initial_gucs\<lparr>pglogical_ticker_database := Some ''postgres''\<rparr>"
         and d = "''postgres''" and name = "''pglogical_ticker worker 1''"
         and early = "[]" and env = "[timeout_pass]"]
    static_worker_registration
      [where preload = False
         and g = "initial_gucs\<lparr>pglogical_ticker_database := Some ''postgres''\<rparr>"
         and g' = initial_gucs and name = "''pglogical_ticker worker 1''"
         and early = "[]" and env = "[timeout_pass]"]
    static_worker_registration [where preload = True and g = initial_gucs]
  by (simp add: initial_gucs_def InvalidOid_def static_worker_def snprintf_bgw_def BGW_MAXLEN_def
      string_of_nat_one)

end
